theory Spec2Isabelle
  imports Complex_Main
begin

section \<open>Values of the Python program\<close>

subsection \<open>Floats\<close>

text \<open>
  A Python float is an IEEE double. Comparison of doubles is exact, so a finite double is
  modelled by the rational number it denotes; the negative zero, the two infinities and
  the NaN are values of their own. Every double is a value of this type (not every
  rational is a double, so a theorem about all \<open>pyfloat\<close> covers all doubles).
\<close>

datatype pyfloat = Finite rat | NegZero | PosInf | NegInf | NaN

text \<open>The operator \<open><\<close> of Python on floats: false whenever an operand is the NaN.\<close>

fun float_lt :: "pyfloat \<Rightarrow> pyfloat \<Rightarrow> bool" where
  "float_lt (Finite a) (Finite b) = (a < b)"
| "float_lt (Finite a) NegZero = (a < 0)"
| "float_lt NegZero (Finite b) = (0 < b)"
| "float_lt NegZero NegZero = False"
| "float_lt NaN _ = False"
| "float_lt _ NaN = False"
| "float_lt PosInf _ = False"
| "float_lt _ PosInf = True"
| "float_lt _ NegInf = False"
| "float_lt NegInf _ = True"

text \<open>The operator \<open>>=\<close> of Python on floats, also false on the NaN.\<close>

fun float_ge :: "pyfloat \<Rightarrow> pyfloat \<Rightarrow> bool" where
  "float_ge (Finite a) (Finite b) = (a \<ge> b)"
| "float_ge (Finite a) NegZero = (a \<ge> 0)"
| "float_ge NegZero (Finite b) = (0 \<ge> b)"
| "float_ge NegZero NegZero = True"
| "float_ge NaN _ = False"
| "float_ge _ NaN = False"
| "float_ge PosInf _ = True"
| "float_ge _ NegInf = True"
| "float_ge _ PosInf = False"
| "float_ge NegInf _ = False"

subsection \<open>Decimal text\<close>

definition digit :: "nat \<Rightarrow> char" where
  "digit d = ''0123456789'' ! d"

fun digits :: "nat \<Rightarrow> string" where
  "digits n = (if n < 10 then [digit n] else digits (n div 10) @ [digit (n mod 10)])"

declare digits.simps [simp del]

text \<open>A number in at least \<open>w\<close> digits, padded with zeros on the left.\<close>

definition zero_pad :: "nat \<Rightarrow> nat \<Rightarrow> string" where
  "zero_pad w n = replicate (w - length (digits n)) (CHR ''0'') @ digits n"

text \<open>
  The nearest natural number to a non-negative rational, a tie going to the even one:
  the rounding of Python's float formatting, which works on the exact value of the double.
\<close>

definition round_half_even :: "rat \<Rightarrow> nat" where
  "round_half_even r =
     (let n = nat \<lfloor>r\<rfloor>; frac = r - of_int \<lfloor>r\<rfloor>
      in if frac > 1 / 2 \<or> (frac = 1 / 2 \<and> odd n) then n + 1 else n)"

text \<open>The format specification \<open>:.2f\<close> of an f-string.\<close>

fun format_2f :: "pyfloat \<Rightarrow> string" where
  "format_2f (Finite r) =
     (let q = round_half_even (\<bar>r\<bar> * 100)
      in (if r < 0 then ''-'' else '''') @ digits (q div 100) @ ''.'' @ zero_pad 2 (q mod 100))"
| "format_2f NegZero = ''-0.00''"
| "format_2f PosInf = ''inf''"
| "format_2f NegInf = ''-inf''"
| "format_2f NaN = ''nan''"

subsection \<open>Strings\<close>

text \<open>
  \<open>str.lower\<close>: an ASCII capital becomes its small letter. A string is a list of bytes
  here; the bytes of a character beyond ASCII stay as they are (no such character has a
  small letter in ASCII but the Kelvin sign, whose small letter is k).
\<close>

definition lower_char :: "char \<Rightarrow> char" where
  "lower_char c =
     (case map_of (zip ''ABCDEFGHIJKLMNOPQRSTUVWXYZ'' ''abcdefghijklmnopqrstuvwxyz'') c of
        Some l \<Rightarrow> l
      | None \<Rightarrow> c)"

definition lower :: "string \<Rightarrow> string" where
  "lower s = map lower_char s"

subsection \<open>Exceptions, log records and the brokerage's records\<close>

text \<open>
  An instance of Python's \<open>Exception\<close>, with the text \<open>str(e)\<close> gives. These are the
  errors a call of the brokerage client raises and an \<open>except Exception\<close> clause catches.
  An interrupt of the process from outside (\<open>KeyboardInterrupt\<close> and \<open>SystemExit\<close> are
  no instances of \<open>Exception\<close>) is no event of the model: the program does not handle
  it, and it ends the process wherever it arrives.
\<close>

datatype exn = Exception (str: string)

datatype level = INFO | WARNING | ERROR

text \<open>
  A \<open>datetime\<close> and its \<open>strftime('%Y-%m-%d %H:%M:%S')\<close>, for a year of four digits (the
  years a market clock reports).
\<close>

record datetime =
  year :: nat
  month :: nat
  day :: nat
  hour :: nat
  minute :: nat
  second :: nat

definition strftime :: "datetime \<Rightarrow> string" where
  "strftime d =
     zero_pad 4 (year d) @ ''-'' @ zero_pad 2 (month d) @ ''-'' @ zero_pad 2 (day d) @ '' '' @
     zero_pad 2 (hour d) @ '':'' @ zero_pad 2 (minute d) @ '':'' @ zero_pad 2 (second d)"

record clock =
  is_open :: bool
  next_open :: datetime

text \<open>
  The account snapshot: \<open>cash\<close> and \<open>portfolio_value\<close> are the floats that
  \<open>float(account.cash)\<close> and \<open>float(account.portfolio_value)\<close> give for the decimal
  amounts of the snapshot.
\<close>

record account =
  account_id :: string
  cash :: pyfloat
  portfolio_value :: pyfloat

datatype OrderSide = BUY | SELL

datatype TimeInForce = DAY | GTC | OPG | CLS | IOC | FOK

record MarketOrderRequest =
  symbol :: string
  notional :: pyfloat
  side :: OrderSide
  time_in_force :: TimeInForce

record order =
  order_id :: string

text \<open>
  The brokerage client as one cycle sees it: what each of its three operations answers
  (\<open>Inr\<close>) or raises (\<open>Inl\<close>) when the cycle calls it. A cycle calls each at most once.
\<close>

record trading_client =
  get_clock :: "exn + clock"
  get_account :: "exn + account"
  submit_order :: "MarketOrderRequest \<Rightarrow> exn + order"

text \<open>What the program does to the outside, in the order it does it.\<close>

datatype event =
    Log level string
  | Call_get_clock
  | Call_get_account
  | Call_submit_order MarketOrderRequest
  | Construct_TradingClient string string bool
  | Schedule_every_day_at string
  | Call_run_pending
  | Sleep nat

text \<open>A call's events, and the value it returns (\<open>Inr\<close>) or the exception it raises.\<close>

type_synonym 'a outcome = "event list \<times> (exn + 'a)"

section \<open>The program\<close>

subsection \<open>Configuration\<close>

definition SYMBOL :: string where
  "SYMBOL = ''SPY''"

definition DAILY_INVESTMENT :: pyfloat where
  "DAILY_INVESTMENT = Finite 100"

text \<open>\<open>str(DAILY_INVESTMENT)\<close>, as an f-string renders the constant \<open>100.0\<close>.\<close>

definition str_DAILY_INVESTMENT :: string where
  "str_DAILY_INVESTMENT = ''100.0''"

text \<open>\<open>os.getenv(key, default)\<close> on the environment, the \<open>.env\<close> file loaded.\<close>

definition getenv :: "(string \<rightharpoonup> string) \<Rightarrow> string \<Rightarrow> string \<Rightarrow> string" where
  "getenv environ key dflt = (case environ key of None \<Rightarrow> dflt | Some v \<Rightarrow> v)"

definition is_paper :: "(string \<rightharpoonup> string) \<Rightarrow> bool" where
  "is_paper environ = (lower (getenv environ ''IS_PAPER'' ''true'') = ''true'')"

text \<open>The truth value of \<open>os.getenv(key)\<close>: \<open>None\<close> and the empty string are false.\<close>

fun truthy :: "string option \<Rightarrow> bool" where
  "truthy None = False"
| "truthy (Some s) = (s \<noteq> [])"

text \<open>
  The module's top level, up to the construction of the client: the events, and the exit
  status (\<open>Inl\<close>) when \<open>exit\<close> is called. Where the client is constructed both
  variables are set, so \<open>the\<close> reads their values.
\<close>

definition module_init :: "(string \<rightharpoonup> string) \<Rightarrow> event list \<times> (nat + unit)" where
  "module_init environ =
     (let api_key = environ ''ALPACA_API_KEY'';
          api_secret = environ ''ALPACA_API_SECRET''
      in if \<not> truthy api_key \<or> \<not> truthy api_secret then
           ([Log ERROR ''API keys not found. Please check your .env file.''], Inl 1)
         else
           ([Construct_TradingClient (the api_key) (the api_secret) (is_paper environ)],
            Inr ()))"

subsection \<open>One cycle\<close>

definition check_market_hours :: "trading_client \<Rightarrow> bool outcome" where
  "check_market_hours tc =
     (case get_clock tc of
        Inl e \<Rightarrow> ([Call_get_clock], Inl e)
      | Inr clock \<Rightarrow>
          if \<not> is_open clock then
            ([Call_get_clock,
              Log INFO (''Market is closed. Next market open: '' @ strftime (next_open clock))],
             Inr False)
          else ([Call_get_clock], Inr True))"

definition get_account_info :: "trading_client \<Rightarrow> pyfloat outcome" where
  "get_account_info tc =
     (case get_account tc of
        Inl e \<Rightarrow> ([Call_get_account], Inl e)
      | Inr account \<Rightarrow>
          ([Call_get_account,
            Log INFO (''Account ID: '' @ account_id account),
            Log INFO (''Cash Balance: $'' @ format_2f (cash account)),
            Log INFO (''Portfolio Value: $'' @ format_2f (portfolio_value account))],
           Inr (cash account)))"

definition place_order :: "trading_client \<Rightarrow> unit outcome" where
  "place_order tc =
     (case check_market_hours tc of
        (t1, Inl e) \<Rightarrow> (t1, Inl e)
      | (t1, Inr opened) \<Rightarrow>
          if \<not> opened then (t1 @ [Log INFO ''Skipping order as market is closed.''], Inr ())
          else
            (case get_account_info tc of
               (t2, Inl e) \<Rightarrow> (t1 @ t2, Inl e)
             | (t2, Inr cash_balance) \<Rightarrow>
                 if float_lt cash_balance DAILY_INVESTMENT then
                   (t1 @ t2 @
                    [Log WARNING (''Insufficient funds. Available cash: $'' @ format_2f cash_balance)],
                    Inr ())
                 else
                   (let market_order_data =
                          \<lparr>symbol = SYMBOL, notional = DAILY_INVESTMENT, side = BUY,
                           time_in_force = DAY\<rparr>
                    in case submit_order tc market_order_data of
                         Inr order \<Rightarrow>
                           (t1 @ t2 @
                            [Call_submit_order market_order_data,
                             Log INFO (''Order placed successfully - Order ID: '' @ order_id order),
                             Log INFO (''Buying $'' @ str_DAILY_INVESTMENT @ '' of '' @ SYMBOL)],
                            Inr ())
                       | Inl e \<Rightarrow>
                           (t1 @ t2 @
                            [Call_submit_order market_order_data,
                             Log ERROR (''Error placing order: '' @ str e)],
                            Inr ()))))"

definition run_dca_strategy :: "trading_client \<Rightarrow> unit outcome" where
  "run_dca_strategy tc =
     (case place_order tc of
        (t, Inr _) \<Rightarrow>
          ([Log INFO ''Running DCA strategy...''] @ t @ [Log INFO ''DCA execution completed''],
           Inr ())
      | (t, Inl e) \<Rightarrow>
          ([Log INFO ''Running DCA strategy...''] @ t @
           [Log ERROR (''Error executing DCA strategy: '' @ str e)],
           Inr ()))"

subsection \<open>The scheduler\<close>

text \<open>
  A job of the \<open>schedule\<close> library, as \<open>every().day.at(t).do(f)\<close> registers it: the time
  of day and the function to run.
\<close>

record job =
  at_time :: string
  job_func :: "trading_client \<Rightarrow> unit outcome"

text \<open>
  One turn of the polling loop, as the outside decides it: whether the wall clock has
  reached the next run of the daily job when \<open>run_pending\<close> looks, and what the brokerage
  answers should the job run.
\<close>

record poll =
  due :: bool
  client :: trading_client

text \<open>\<open>schedule.run_pending()\<close>: the jobs that are due run in turn; an exception of one ends it.\<close>

fun run_jobs :: "job list \<Rightarrow> poll \<Rightarrow> unit outcome" where
  "run_jobs [] p = ([], Inr ())"
| "run_jobs (j # js) p =
     (if due p then
        (case job_func j (client p) of
           (t, Inl e) \<Rightarrow> (t, Inl e)
         | (t, Inr _) \<Rightarrow> (case run_jobs js p of (t', r) \<Rightarrow> (t @ t', r)))
      else run_jobs js p)"

definition run_pending :: "job list \<Rightarrow> poll \<Rightarrow> unit outcome" where
  "run_pending jobs p = (case run_jobs jobs p of (t, r) \<Rightarrow> (Call_run_pending # t, r))"

text \<open>
  The loop \<open>while True: schedule.run_pending(); time.sleep(60)\<close> over the turns given. It
  has no exit of its own: the result is \<open>None\<close> when the loop is still running after the
  last turn given, and the exception when one leaves \<open>run_pending\<close>.
\<close>

fun while_True :: "job list \<Rightarrow> poll list \<Rightarrow> event list \<times> exn option" where
  "while_True jobs [] = ([], None)"
| "while_True jobs (p # ps) =
     (case run_pending jobs p of
        (t, Inl e) \<Rightarrow> (t, Some e)
      | (t, Inr _) \<Rightarrow> (case while_True jobs ps of (t', r) \<Rightarrow> (t @ [Sleep 60] @ t', r)))"

text \<open>
  \<open>schedule_dca\<close>, with the brokerage's answers for the run at start and the turns of the
  loop. The registry of jobs is empty before.
\<close>

definition schedule_dca :: "trading_client \<Rightarrow> poll list \<Rightarrow> event list \<times> exn option" where
  "schedule_dca tc0 polls =
     (let jobs = [] @ [\<lparr>at_time = ''09:35'', job_func = run_dca_strategy\<rparr>];
          t0 = [Schedule_every_day_at ''09:35'',
                Log INFO ''DCA strategy scheduled to run daily at 9:35 AM'']
      in case run_dca_strategy tc0 of
           (t1, Inl e) \<Rightarrow> (t0 @ t1, Some e)
         | (t1, Inr _) \<Rightarrow> (case while_True jobs polls of (t2, r) \<Rightarrow> (t0 @ t1 @ t2, r)))"

text \<open>How the process stands after the turns given.\<close>

datatype status = Exited nat | Raised exn | Looping

definition main_py :: "(string \<rightharpoonup> string) \<Rightarrow> trading_client \<Rightarrow> poll list \<Rightarrow> event list \<times> status" where
  "main_py environ tc0 polls =
     (case module_init environ of
        (t, Inl code) \<Rightarrow> (t, Exited code)
      | (t, Inr _) \<Rightarrow>
          (case schedule_dca tc0 polls of
             (t', r) \<Rightarrow>
               (t @ [Log INFO ''Starting DCA strategy for S&P 500 ($100 daily investment)''] @ t',
                case r of None \<Rightarrow> Looping | Some e \<Rightarrow> Raised e)))"

section \<open>Observations and example inputs\<close>

text \<open>The order requests a trace submits, in order.\<close>

fun submissions :: "event list \<Rightarrow> MarketOrderRequest list" where
  "submissions [] = []"
| "submissions (Call_submit_order r # es) = r # submissions es"
| "submissions (_ # es) = submissions es"

text \<open>The times of day a trace registers a daily job at.\<close>

fun registrations :: "event list \<Rightarrow> string list" where
  "registrations [] = []"
| "registrations (Schedule_every_day_at t # es) = t # registrations es"
| "registrations (_ # es) = registrations es"

text \<open>The seconds of each \<open>time.sleep\<close> of a trace.\<close>

fun sleeps :: "event list \<Rightarrow> nat list" where
  "sleeps [] = []"
| "sleeps (Sleep n # es) = n # sleeps es"
| "sleeps (_ # es) = sleeps es"

text \<open>How often a trace calls \<open>run_pending\<close>, and how often it starts the strategy.\<close>

definition checks_of_pending :: "event list \<Rightarrow> nat" where
  "checks_of_pending t = count_list t Call_run_pending"

definition strategy_runs :: "event list \<Rightarrow> nat" where
  "strategy_runs t = count_list t (Log INFO ''Running DCA strategy...'')"

text \<open>
  A case-insensitive match, said without \<open>lower\<close>: the strings have the same length and,
  place by place, the same character or the capital and the small form of one letter.
\<close>

definition same_letter :: "char \<Rightarrow> char \<Rightarrow> bool" where
  "same_letter x y =
     (x = y \<or>
      map_of (zip ''ABCDEFGHIJKLMNOPQRSTUVWXYZ'' ''abcdefghijklmnopqrstuvwxyz'') x = Some y \<or>
      map_of (zip ''ABCDEFGHIJKLMNOPQRSTUVWXYZ'' ''abcdefghijklmnopqrstuvwxyz'') y = Some x)"

definition case_insensitive_match :: "string \<Rightarrow> string \<Rightarrow> bool" where
  "case_insensitive_match a b = list_all2 same_letter a b"

text \<open>Concrete inputs, for the instances of the theorems below.\<close>

definition example_datetime :: datetime where
  "example_datetime = \<lparr>year = 2024, month = 1, day = 3, hour = 9, minute = 30, second = 0\<rparr>"

definition example_clock :: "bool \<Rightarrow> clock" where
  "example_clock opened = \<lparr>is_open = opened, next_open = example_datetime\<rparr>"

definition example_account :: "pyfloat \<Rightarrow> account" where
  "example_account c = \<lparr>account_id = ''acct-1'', cash = c, portfolio_value = Finite 2500\<rparr>"

definition example_client :: "bool \<Rightarrow> pyfloat \<Rightarrow> trading_client" where
  "example_client opened c =
     \<lparr>get_clock = Inr (example_clock opened), get_account = Inr (example_account c),
      submit_order = (\<lambda>r. Inr \<lparr>order_id = ''order-1''\<rparr>)\<rparr>"

definition rejecting_client :: "pyfloat \<Rightarrow> trading_client" where
  "rejecting_client c =
     \<lparr>get_clock = Inr (example_clock True), get_account = Inr (example_account c),
      submit_order = (\<lambda>r. Inl (Exception ''rejected''))\<rparr>"

definition failing_clock_client :: trading_client where
  "failing_clock_client =
     \<lparr>get_clock = Inl (Exception ''clock unavailable''),
      get_account = Inr (example_account (Finite 500)),
      submit_order = (\<lambda>r. Inr \<lparr>order_id = ''order-1''\<rparr>)\<rparr>"

definition failing_account_client :: trading_client where
  "failing_account_client =
     \<lparr>get_clock = Inr (example_clock True),
      get_account = Inl (Exception ''account unavailable''),
      submit_order = (\<lambda>r. Inr \<lparr>order_id = ''order-1''\<rparr>)\<rparr>"

section \<open>Properties\<close>

lemmas example_defs = example_datetime_def example_clock_def example_account_def
  example_client_def rejecting_client_def

lemmas failing_defs = failing_clock_client_def failing_account_client_def

subsection \<open>The branches of a cycle\<close>

lemma submissions_append: "submissions (xs @ ys) = submissions xs @ submissions ys"
  by (induction xs rule: submissions.induct) simp_all

lemma float_ge_not_lt: "float_ge c d \<Longrightarrow> \<not> float_lt c d"
  by (cases c; cases d) simp_all

lemma check_market_hours_raises:
  "get_clock tc = Inl e \<Longrightarrow> check_market_hours tc = ([Call_get_clock], Inl e)"
  by (simp add: check_market_hours_def)

lemma check_market_hours_closed:
  "get_clock tc = Inr c \<Longrightarrow> \<not> is_open c \<Longrightarrow>
   check_market_hours tc =
     ([Call_get_clock, Log INFO (''Market is closed. Next market open: '' @ strftime (next_open c))],
      Inr False)"
  by (simp add: check_market_hours_def)

lemma check_market_hours_open:
  "get_clock tc = Inr c \<Longrightarrow> is_open c \<Longrightarrow> check_market_hours tc = ([Call_get_clock], Inr True)"
  by (simp add: check_market_hours_def)

lemma place_order_clock_raises:
  "get_clock tc = Inl e \<Longrightarrow> place_order tc = ([Call_get_clock], Inl e)"
  by (simp add: place_order_def check_market_hours_raises)

lemma place_order_closed:
  "get_clock tc = Inr c \<Longrightarrow> \<not> is_open c \<Longrightarrow>
   place_order tc =
     ([Call_get_clock,
       Log INFO (''Market is closed. Next market open: '' @ strftime (next_open c)),
       Log INFO ''Skipping order as market is closed.''], Inr ())"
  by (simp add: place_order_def check_market_hours_closed)

lemma place_order_account_raises:
  "get_clock tc = Inr c \<Longrightarrow> is_open c \<Longrightarrow> get_account tc = Inl e \<Longrightarrow>
   place_order tc = ([Call_get_clock, Call_get_account], Inl e)"
  by (simp add: place_order_def check_market_hours_open get_account_info_def)

lemma place_order_insufficient:
  "get_clock tc = Inr c \<Longrightarrow> is_open c \<Longrightarrow> get_account tc = Inr a \<Longrightarrow>
   float_lt (cash a) DAILY_INVESTMENT \<Longrightarrow>
   place_order tc =
     ([Call_get_clock] @ fst (get_account_info tc) @
      [Log WARNING (''Insufficient funds. Available cash: $'' @ format_2f (cash a))], Inr ())"
  by (simp add: place_order_def check_market_hours_open get_account_info_def)

lemma place_order_submitted:
  "get_clock tc = Inr c \<Longrightarrow> is_open c \<Longrightarrow> get_account tc = Inr a \<Longrightarrow>
   \<not> float_lt (cash a) DAILY_INVESTMENT \<Longrightarrow>
   submit_order tc \<lparr>symbol = SYMBOL, notional = DAILY_INVESTMENT, side = BUY, time_in_force = DAY\<rparr> = Inr ord \<Longrightarrow>
   place_order tc =
     ([Call_get_clock] @ fst (get_account_info tc) @
      [Call_submit_order \<lparr>symbol = SYMBOL, notional = DAILY_INVESTMENT, side = BUY, time_in_force = DAY\<rparr>,
       Log INFO (''Order placed successfully - Order ID: '' @ order_id ord),
       Log INFO (''Buying $'' @ str_DAILY_INVESTMENT @ '' of '' @ SYMBOL)], Inr ())"
  by (simp add: place_order_def check_market_hours_open get_account_info_def)

lemma place_order_submit_raises:
  "get_clock tc = Inr c \<Longrightarrow> is_open c \<Longrightarrow> get_account tc = Inr a \<Longrightarrow>
   \<not> float_lt (cash a) DAILY_INVESTMENT \<Longrightarrow>
   submit_order tc \<lparr>symbol = SYMBOL, notional = DAILY_INVESTMENT, side = BUY, time_in_force = DAY\<rparr> = Inl e \<Longrightarrow>
   place_order tc =
     ([Call_get_clock] @ fst (get_account_info tc) @
      [Call_submit_order \<lparr>symbol = SYMBOL, notional = DAILY_INVESTMENT, side = BUY, time_in_force = DAY\<rparr>,
       Log ERROR (''Error placing order: '' @ str e)], Inr ())"
  by (simp add: place_order_def check_market_hours_open get_account_info_def)

lemma submissions_get_account_info: "submissions (fst (get_account_info tc)) = []"
  by (simp add: get_account_info_def split: sum.splits)

lemma run_dca_strategy_trace:
  "fst (run_dca_strategy tc) =
     Log INFO ''Running DCA strategy...'' # fst (place_order tc) @
     [case snd (place_order tc) of
        Inr _ \<Rightarrow> Log INFO ''DCA execution completed''
      | Inl e \<Rightarrow> Log ERROR (''Error executing DCA strategy: '' @ str e)]"
  by (simp add: run_dca_strategy_def split: prod.splits sum.splits)

lemma run_dca_strategy_returns: "snd (run_dca_strategy tc) = Inr ()"
  by (simp add: run_dca_strategy_def split: prod.splits sum.splits)

lemma submissions_run_dca_strategy:
  "submissions (fst (run_dca_strategy tc)) = submissions (fst (place_order tc))"
  by (simp add: run_dca_strategy_trace submissions_append split: sum.splits)

lemma warnings_get_account_info: "Log WARNING m \<notin> set (fst (get_account_info tc))"
  by (simp add: get_account_info_def split: sum.splits)

lemma place_order_open_prefix:
  assumes "get_clock tc = Inr c" and "is_open c"
  shows "\<exists>rest. fst (place_order tc) = fst (check_market_hours tc) @ fst (get_account_info tc) @ rest"
  by (simp add: place_order_def check_market_hours_open [OF assms] Let_def
      split: prod.splits sum.splits)

lemma closed_cycle_trace:
  assumes "get_clock tc = Inr c" and "\<not> is_open c"
  shows "fst (run_dca_strategy tc) =
           [Log INFO ''Running DCA strategy...'', Call_get_clock,
            Log INFO (''Market is closed. Next market open: '' @ strftime (next_open c)),
            Log INFO ''Skipping order as market is closed.'',
            Log INFO ''DCA execution completed'']"
  by (simp add: run_dca_strategy_trace place_order_closed [OF assms])

lemma clock_raises_cycle_trace:
  assumes "get_clock tc = Inl e"
  shows "fst (run_dca_strategy tc) =
           [Log INFO ''Running DCA strategy...'', Call_get_clock,
            Log ERROR (''Error executing DCA strategy: '' @ str e)]"
  by (simp add: run_dca_strategy_trace place_order_clock_raises [OF assms])

subsection \<open>The scheduler's trace\<close>

lemma run_pending_dca:
  "run_pending [\<lparr>at_time = t, job_func = run_dca_strategy\<rparr>] p =
     (Call_run_pending # (if due p then fst (run_dca_strategy (client p)) else []), Inr ())"
  using run_dca_strategy_returns [of "client p"]
  by (auto simp: run_pending_def split: prod.splits sum.splits)

lemma while_True_dca:
  "while_True [\<lparr>at_time = t, job_func = run_dca_strategy\<rparr>] polls =
     (concat (map (\<lambda>p. Call_run_pending #
                 (if due p then fst (run_dca_strategy (client p)) else []) @ [Sleep 60]) polls),
      None)"
  by (induction polls) (simp_all add: run_pending_dca)

lemma schedule_dca_trace:
  "schedule_dca tc0 polls =
     ([Schedule_every_day_at ''09:35'',
       Log INFO ''DCA strategy scheduled to run daily at 9:35 AM''] @
      fst (run_dca_strategy tc0) @
      concat (map (\<lambda>p. Call_run_pending #
                 (if due p then fst (run_dca_strategy (client p)) else []) @ [Sleep 60]) polls),
      None)"
  using run_dca_strategy_returns [of tc0]
  by (auto simp: schedule_dca_def while_True_dca split: prod.splits sum.splits)

lemma registrations_append: "registrations (xs @ ys) = registrations xs @ registrations ys"
  by (induction xs rule: registrations.induct) simp_all

lemma sleeps_append: "sleeps (xs @ ys) = sleeps xs @ sleeps ys"
  by (induction xs rule: sleeps.induct) simp_all

lemma checks_of_pending_append:
  "checks_of_pending (xs @ ys) = checks_of_pending xs + checks_of_pending ys"
  by (simp add: checks_of_pending_def)

lemma strategy_runs_append: "strategy_runs (xs @ ys) = strategy_runs xs + strategy_runs ys"
  by (simp add: strategy_runs_def)

lemma checks_of_pending_Cons:
  "checks_of_pending (e # xs) = (if e = Call_run_pending then 1 else 0) + checks_of_pending xs"
  by (simp add: checks_of_pending_def)

lemma strategy_runs_Cons:
  "strategy_runs (e # xs) =
     (if e = Log INFO ''Running DCA strategy...'' then 1 else 0) + strategy_runs xs"
  by (simp add: strategy_runs_def)

lemma observations_Nil: "checks_of_pending [] = 0" "strategy_runs [] = 0"
  by (simp_all add: checks_of_pending_def strategy_runs_def)

lemma cycle_observations:
  "registrations (fst (run_dca_strategy tc)) = [] \<and>
   sleeps (fst (run_dca_strategy tc)) = [] \<and>
   checks_of_pending (fst (run_dca_strategy tc)) = 0 \<and>
   strategy_runs (fst (run_dca_strategy tc)) = 1"
  by (simp add: run_dca_strategy_def place_order_def check_market_hours_def
      get_account_info_def Let_def checks_of_pending_def strategy_runs_def
      split: sum.splits prod.splits)

lemma loop_observations:
  "registrations (concat (map (\<lambda>p. Call_run_pending #
       (if due p then fst (run_dca_strategy (client p)) else []) @ [Sleep 60]) polls)) = [] \<and>
   sleeps (concat (map (\<lambda>p. Call_run_pending #
       (if due p then fst (run_dca_strategy (client p)) else []) @ [Sleep 60]) polls)) =
     replicate (length polls) 60 \<and>
   checks_of_pending (concat (map (\<lambda>p. Call_run_pending #
       (if due p then fst (run_dca_strategy (client p)) else []) @ [Sleep 60]) polls)) =
     length polls \<and>
   strategy_runs (concat (map (\<lambda>p. Call_run_pending #
       (if due p then fst (run_dca_strategy (client p)) else []) @ [Sleep 60]) polls)) =
     length (filter due polls)"
proof (induction polls)
  case Nil
  show ?case by (simp add: observations_Nil)
next
  case (Cons p ps)
  then show ?case
    by (simp add: registrations_append sleeps_append checks_of_pending_append
        strategy_runs_append cycle_observations checks_of_pending_Cons strategy_runs_Cons
        observations_Nil)
qed

lemma main_py_started:
  "truthy (environ ''ALPACA_API_KEY'') \<Longrightarrow> truthy (environ ''ALPACA_API_SECRET'') \<Longrightarrow>
   snd (main_py environ tc0 polls) = Looping"
  by (simp add: main_py_def module_init_def Let_def schedule_dca_trace)

lemma main_py_not_raised: "snd (main_py environ tc0 polls) \<noteq> Raised e"
  by (simp add: main_py_def module_init_def Let_def schedule_dca_trace)

subsection \<open>Orders\<close>

text \<open>
  C1. In a cycle in which the market clock reports open and the account's cash balance is
  at least the daily amount, \<open>place_order\<close> (and so the cycle) submits exactly one order:
  notional 100.0, symbol SPY, side buy, time in force day. This holds whether the
  brokerage accepts the order or raises.
\<close>

theorem order_submitted_when_open_and_funded:
  assumes "get_clock tc = Inr c" and "is_open c" and "get_account tc = Inr a"
    and "float_ge (cash a) DAILY_INVESTMENT"
  shows "submissions (fst (place_order tc)) =
           [\<lparr>symbol = ''SPY'', notional = Finite 100, side = BUY, time_in_force = DAY\<rparr>] \<and>
         submissions (fst (run_dca_strategy tc)) =
           [\<lparr>symbol = ''SPY'', notional = Finite 100, side = BUY, time_in_force = DAY\<rparr>]"
proof -
  let ?req = "\<lparr>symbol = SYMBOL, notional = DAILY_INVESTMENT, side = BUY, time_in_force = DAY\<rparr>"
  have funded: "\<not> float_lt (cash a) DAILY_INVESTMENT"
    using assms(4) by (rule float_ge_not_lt)
  have "submissions (fst (place_order tc)) = [?req]"
  proof (cases "submit_order tc ?req")
    case (Inl e)
    show ?thesis
      by (simp add: place_order_submit_raises [OF assms(1-3) funded Inl]
          submissions_append submissions_get_account_info)
  next
    case (Inr ord)
    show ?thesis
      by (simp add: place_order_submitted [OF assms(1-3) funded Inr]
          submissions_append submissions_get_account_info)
  qed
  then show ?thesis
    by (simp add: submissions_run_dca_strategy SYMBOL_def DAILY_INVESTMENT_def)
qed

theorem order_submitted_when_open_and_funded_witness:
  "get_clock (example_client True (Finite 500)) = Inr (example_clock True) \<and>
   is_open (example_clock True) \<and>
   get_account (example_client True (Finite 500)) = Inr (example_account (Finite 500)) \<and>
   float_ge (cash (example_account (Finite 500))) DAILY_INVESTMENT \<and>
   submissions (fst (place_order (example_client True (Finite 500)))) =
     [\<lparr>symbol = ''SPY'', notional = Finite 100, side = BUY, time_in_force = DAY\<rparr>] \<and>
   submissions (fst (run_dca_strategy (example_client True (Finite 500)))) =
     [\<lparr>symbol = ''SPY'', notional = Finite 100, side = BUY, time_in_force = DAY\<rparr>]"
proof -
  have h1: "get_clock (example_client True (Finite 500)) = Inr (example_clock True)"
    by (simp add: example_defs)
  have h2: "is_open (example_clock True)"
    by (simp add: example_defs)
  have h3: "get_account (example_client True (Finite 500)) = Inr (example_account (Finite 500))"
    by (simp add: example_defs)
  have h4: "float_ge (cash (example_account (Finite 500))) DAILY_INVESTMENT"
    by (simp add: example_defs DAILY_INVESTMENT_def)
  show ?thesis
    using order_submitted_when_open_and_funded [OF h1 h2 h3 h4] h1 h2 h3 h4 by simp
qed

text \<open>
  C2. In a cycle in which the market clock reports closed, no order is submitted, and the
  market-hours gate logs the clock's next-open time.
\<close>

theorem no_order_when_market_closed:
  assumes "get_clock tc = Inr c" and "\<not> is_open c"
  shows "check_market_hours tc =
           ([Call_get_clock,
             Log INFO (''Market is closed. Next market open: '' @ strftime (next_open c))],
            Inr False) \<and>
         submissions (fst (run_dca_strategy tc)) = [] \<and>
         Log INFO (''Market is closed. Next market open: '' @ strftime (next_open c))
           \<in> set (fst (run_dca_strategy tc))"
  by (simp add: check_market_hours_closed [OF assms] run_dca_strategy_trace
      place_order_closed [OF assms])

theorem no_order_when_market_closed_witness:
  "get_clock (example_client False (Finite 500)) = Inr (example_clock False) \<and>
   \<not> is_open (example_clock False) \<and>
   submissions (fst (run_dca_strategy (example_client False (Finite 500)))) = [] \<and>
   Log INFO ''Market is closed. Next market open: 2024-01-03 09:30:00''
     \<in> set (fst (run_dca_strategy (example_client False (Finite 500))))"
proof -
  have h1: "get_clock (example_client False (Finite 500)) = Inr (example_clock False)"
    by (simp add: example_defs)
  have h2: "\<not> is_open (example_clock False)"
    by (simp add: example_defs)
  have s: "strftime (next_open (example_clock False)) = ''2024-01-03 09:30:00''"
    by code_simp
  show ?thesis
    using no_order_when_market_closed [OF h1 h2] h1 h2 by (simp add: s)
qed

text \<open>
  C3. In a cycle in which the market is open and the cash balance is strictly below the
  daily amount, no order is submitted and a warning with the cash balance, in two
  decimals, is logged.
\<close>

theorem no_order_when_funds_insufficient:
  assumes "get_clock tc = Inr c" and "is_open c" and "get_account tc = Inr a"
    and "float_lt (cash a) DAILY_INVESTMENT"
  shows "submissions (fst (run_dca_strategy tc)) = [] \<and>
         Log WARNING (''Insufficient funds. Available cash: $'' @ format_2f (cash a))
           \<in> set (fst (run_dca_strategy tc))"
  by (simp add: run_dca_strategy_trace place_order_insufficient [OF assms]
      submissions_append submissions_get_account_info)

theorem no_order_when_funds_insufficient_witness:
  "get_clock (example_client True (Finite 50)) = Inr (example_clock True) \<and>
   is_open (example_clock True) \<and>
   get_account (example_client True (Finite 50)) = Inr (example_account (Finite 50)) \<and>
   float_lt (cash (example_account (Finite 50))) DAILY_INVESTMENT \<and>
   submissions (fst (run_dca_strategy (example_client True (Finite 50)))) = [] \<and>
   Log WARNING ''Insufficient funds. Available cash: $50.00''
     \<in> set (fst (run_dca_strategy (example_client True (Finite 50))))"
proof -
  have h1: "get_clock (example_client True (Finite 50)) = Inr (example_clock True)"
    by (simp add: example_defs)
  have h2: "is_open (example_clock True)"
    by (simp add: example_defs)
  have h3: "get_account (example_client True (Finite 50)) = Inr (example_account (Finite 50))"
    by (simp add: example_defs)
  have h4: "float_lt (cash (example_account (Finite 50))) DAILY_INVESTMENT"
    by (simp add: example_defs DAILY_INVESTMENT_def)
  have s: "format_2f (cash (example_account (Finite 50))) = ''50.00''"
    by code_simp
  show ?thesis
    using no_order_when_funds_insufficient [OF h1 h2 h3 h4] h1 h2 h3 h4 by (simp add: s)
qed

text \<open>
  C9. When the cash balance equals the daily amount, the insufficient-funds guard does not
  fire (the comparison is a strict less-than): no warning is logged and the order is
  submitted.
\<close>

theorem order_submitted_at_boundary:
  assumes "get_clock tc = Inr c" and "is_open c" and "get_account tc = Inr a"
    and "cash a = DAILY_INVESTMENT"
  shows "\<not> float_lt (cash a) DAILY_INVESTMENT \<and>
         submissions (fst (place_order tc)) =
           [\<lparr>symbol = ''SPY'', notional = Finite 100, side = BUY, time_in_force = DAY\<rparr>] \<and>
         (\<forall>m. Log WARNING m \<notin> set (fst (place_order tc)))"
proof -
  let ?req = "\<lparr>symbol = SYMBOL, notional = DAILY_INVESTMENT, side = BUY, time_in_force = DAY\<rparr>"
  have guard: "\<not> float_lt (cash a) DAILY_INVESTMENT"
    by (simp add: assms(4) DAILY_INVESTMENT_def)
  have "submissions (fst (place_order tc)) = [?req] \<and>
        (\<forall>m. Log WARNING m \<notin> set (fst (place_order tc)))"
  proof (cases "submit_order tc ?req")
    case (Inl e)
    show ?thesis
      by (simp add: place_order_submit_raises [OF assms(1-3) guard Inl]
          submissions_append submissions_get_account_info warnings_get_account_info)
  next
    case (Inr ord)
    show ?thesis
      by (simp add: place_order_submitted [OF assms(1-3) guard Inr]
          submissions_append submissions_get_account_info warnings_get_account_info)
  qed
  with guard show ?thesis
    by (simp add: SYMBOL_def DAILY_INVESTMENT_def)
qed

theorem order_submitted_at_boundary_witness:
  "get_clock (example_client True (Finite 100)) = Inr (example_clock True) \<and>
   is_open (example_clock True) \<and>
   get_account (example_client True (Finite 100)) = Inr (example_account (Finite 100)) \<and>
   cash (example_account (Finite 100)) = DAILY_INVESTMENT \<and>
   \<not> float_lt (cash (example_account (Finite 100))) DAILY_INVESTMENT \<and>
   submissions (fst (place_order (example_client True (Finite 100)))) =
     [\<lparr>symbol = ''SPY'', notional = Finite 100, side = BUY, time_in_force = DAY\<rparr>] \<and>
   (\<forall>m. Log WARNING m \<notin> set (fst (place_order (example_client True (Finite 100)))))"
proof -
  have h1: "get_clock (example_client True (Finite 100)) = Inr (example_clock True)"
    by (simp add: example_defs)
  have h2: "is_open (example_clock True)"
    by (simp add: example_defs)
  have h3: "get_account (example_client True (Finite 100)) = Inr (example_account (Finite 100))"
    by (simp add: example_defs)
  have h4: "cash (example_account (Finite 100)) = DAILY_INVESTMENT"
    by (simp add: example_defs DAILY_INVESTMENT_def)
  show ?thesis
    using order_submitted_at_boundary [OF h1 h2 h3 h4] h1 h2 h3 h4 by simp
qed

text \<open>
  C10. In a cycle in which the market clock reports closed, the account is not queried and
  none of the account gate's events (the query, the logging of id, cash and portfolio
  value) occurs. In any cycle that does query the account, the market-hours gate has
  returned true before, and the account gate's events follow the market-hours gate's.
\<close>

theorem account_query_only_when_open:
  "(\<forall>c. get_clock tc = Inr c \<and> \<not> is_open c \<longrightarrow>
      Call_get_account \<notin> set (fst (run_dca_strategy tc)) \<and>
      set (fst (get_account_info tc)) \<inter> set (fst (run_dca_strategy tc)) = {}) \<and>
   (Call_get_account \<in> set (fst (run_dca_strategy tc)) \<longrightarrow>
      snd (check_market_hours tc) = Inr True \<and>
      (\<exists>rest. fst (place_order tc) =
         fst (check_market_hours tc) @ fst (get_account_info tc) @ rest))"
proof (intro conjI allI impI)
  fix c
  assume closed: "get_clock tc = Inr c \<and> \<not> is_open c"
  then have t: "fst (run_dca_strategy tc) =
           [Log INFO ''Running DCA strategy...'', Call_get_clock,
            Log INFO (''Market is closed. Next market open: '' @ strftime (next_open c)),
            Log INFO ''Skipping order as market is closed.'',
            Log INFO ''DCA execution completed'']"
    by (simp add: closed_cycle_trace)
  show "Call_get_account \<notin> set (fst (run_dca_strategy tc))"
    by (simp add: t)
  show "set (fst (get_account_info tc)) \<inter> set (fst (run_dca_strategy tc)) = {}"
    unfolding t by (simp add: get_account_info_def split: sum.splits)
next
  assume q: "Call_get_account \<in> set (fst (run_dca_strategy tc))"
  have op: "\<exists>c. get_clock tc = Inr c \<and> is_open c"
  proof (cases "get_clock tc")
    case (Inl e)
    with q show ?thesis by (simp add: clock_raises_cycle_trace)
  next
    case (Inr c)
    with q show ?thesis by (cases "is_open c") (simp_all add: closed_cycle_trace)
  qed
  then obtain c where c: "get_clock tc = Inr c" "is_open c" by blast
  show "snd (check_market_hours tc) = Inr True"
    by (simp add: check_market_hours_open [OF c])
  show "\<exists>rest. fst (place_order tc) =
         fst (check_market_hours tc) @ fst (get_account_info tc) @ rest"
    by (rule place_order_open_prefix [OF c])
qed

theorem account_query_only_when_open_witness:
  "get_clock (example_client False (Finite 500)) = Inr (example_clock False) \<and>
   \<not> is_open (example_clock False) \<and>
   Call_get_account \<notin> set (fst (run_dca_strategy (example_client False (Finite 500)))) \<and>
   set (fst (get_account_info (example_client False (Finite 500)))) \<inter>
     set (fst (run_dca_strategy (example_client False (Finite 500)))) = {} \<and>
   Call_get_account \<in> set (fst (run_dca_strategy (example_client True (Finite 500)))) \<and>
   snd (check_market_hours (example_client True (Finite 500))) = Inr True"
proof -
  have h1: "get_clock (example_client False (Finite 500)) = Inr (example_clock False) \<and>
            \<not> is_open (example_clock False)"
    by (simp add: example_defs)
  have h2: "Call_get_account \<in> set (fst (run_dca_strategy (example_client True (Finite 500))))"
    by (simp add: run_dca_strategy_trace place_order_def check_market_hours_def
        get_account_info_def example_defs DAILY_INVESTMENT_def)
  show ?thesis
    using account_query_only_when_open [of "example_client False (Finite 500)"]
      account_query_only_when_open [of "example_client True (Finite 500)"] h1 h2
    by blast
qed

subsection \<open>Errors\<close>

text \<open>
  C4. When the submission of the order raises, \<open>place_order\<close> logs the error at error
  severity and returns normally, after one submission (no retry); the cycle completes;
  the scheduler's loop goes on, and a later turn of the loop in which the trigger is due
  runs the strategy again.
\<close>

theorem submission_error_swallowed:
  assumes "get_clock tc = Inr c" and "is_open c" and "get_account tc = Inr a"
    and "\<not> float_lt (cash a) DAILY_INVESTMENT"
    and "submit_order tc
           \<lparr>symbol = SYMBOL, notional = DAILY_INVESTMENT, side = BUY, time_in_force = DAY\<rparr> = Inl e"
  shows "snd (place_order tc) = Inr () \<and>
         last (fst (place_order tc)) = Log ERROR (''Error placing order: '' @ str e) \<and>
         length (submissions (fst (place_order tc))) = 1 \<and>
         run_dca_strategy tc =
           (Log INFO ''Running DCA strategy...'' # fst (place_order tc) @
            [Log INFO ''DCA execution completed''], Inr ()) \<and>
         snd (schedule_dca tc polls) = None \<and>
         schedule_dca tc0 (ps @ [\<lparr>due = True, client = tc\<rparr>, q]) =
           (fst (schedule_dca tc0 ps) @
            Call_run_pending # fst (run_dca_strategy tc) @
            Sleep 60 # Call_run_pending #
            (if due q then fst (run_dca_strategy (client q)) else []) @ [Sleep 60],
            None)"
proof -
  note po = place_order_submit_raises [OF assms]
  have 1: "snd (place_order tc) = Inr ()"
    by (simp add: po)
  have 2: "last (fst (place_order tc)) = Log ERROR (''Error placing order: '' @ str e)"
    by (simp add: po)
  have 3: "length (submissions (fst (place_order tc))) = 1"
    by (simp add: po submissions_append submissions_get_account_info)
  have 4: "run_dca_strategy tc =
           (Log INFO ''Running DCA strategy...'' # fst (place_order tc) @
            [Log INFO ''DCA execution completed''], Inr ())"
    using 1 by (auto simp: run_dca_strategy_def split: prod.splits)
  have 5: "snd (schedule_dca tc polls) = None"
    by (simp add: schedule_dca_trace)
  have 6: "schedule_dca tc0 (ps @ [\<lparr>due = True, client = tc\<rparr>, q]) =
           (fst (schedule_dca tc0 ps) @
            Call_run_pending # fst (run_dca_strategy tc) @
            Sleep 60 # Call_run_pending #
            (if due q then fst (run_dca_strategy (client q)) else []) @ [Sleep 60],
            None)"
    by (simp add: schedule_dca_trace)
  from 1 2 3 4 5 6 show ?thesis by blast
qed

theorem submission_error_swallowed_witness:
  "get_clock (rejecting_client (Finite 500)) = Inr (example_clock True) \<and>
   is_open (example_clock True) \<and>
   get_account (rejecting_client (Finite 500)) = Inr (example_account (Finite 500)) \<and>
   \<not> float_lt (cash (example_account (Finite 500))) DAILY_INVESTMENT \<and>
   submit_order (rejecting_client (Finite 500))
     \<lparr>symbol = SYMBOL, notional = DAILY_INVESTMENT, side = BUY, time_in_force = DAY\<rparr> =
     Inl (Exception ''rejected'') \<and>
   snd (place_order (rejecting_client (Finite 500))) = Inr () \<and>
   last (fst (place_order (rejecting_client (Finite 500)))) =
     Log ERROR ''Error placing order: rejected'' \<and>
   length (submissions (fst (place_order (rejecting_client (Finite 500))))) = 1 \<and>
   snd (run_dca_strategy (rejecting_client (Finite 500))) = Inr () \<and>
   snd (schedule_dca (rejecting_client (Finite 500)) []) = None \<and>
   schedule_dca (example_client True (Finite 500))
     ([] @ [\<lparr>due = True, client = rejecting_client (Finite 500)\<rparr>,
            \<lparr>due = True, client = example_client False (Finite 500)\<rparr>]) =
     (fst (schedule_dca (example_client True (Finite 500)) []) @
      Call_run_pending # fst (run_dca_strategy (rejecting_client (Finite 500))) @
      Sleep 60 # Call_run_pending #
      fst (run_dca_strategy (example_client False (Finite 500))) @ [Sleep 60],
      None)"
proof -
  have h1: "get_clock (rejecting_client (Finite 500)) = Inr (example_clock True)"
    by (simp add: example_defs)
  have h2: "is_open (example_clock True)"
    by (simp add: example_defs)
  have h3: "get_account (rejecting_client (Finite 500)) = Inr (example_account (Finite 500))"
    by (simp add: example_defs)
  have h4: "\<not> float_lt (cash (example_account (Finite 500))) DAILY_INVESTMENT"
    by (simp add: example_defs DAILY_INVESTMENT_def)
  have h5: "submit_order (rejecting_client (Finite 500))
     \<lparr>symbol = SYMBOL, notional = DAILY_INVESTMENT, side = BUY, time_in_force = DAY\<rparr> =
     Inl (Exception ''rejected'')"
    by (simp add: example_defs)
  show ?thesis
    using submission_error_swallowed [OF h1 h2 h3 h4 h5, of "[]" "example_client True (Finite 500)" "[]"
        "\<lparr>due = True, client = example_client False (Finite 500)\<rparr>"] h1 h2 h3 h4 h5
    by simp
qed

text \<open>
  C5. The strategy runner returns normally whatever the cycle raises, the exception
  logged at error severity; that covers an error of the market-clock query and one of the
  account query, which \<open>place_order\<close> lets through. So no turn of the scheduler's loop
  ends the loop: after any number of turns the loop is still running, having checked the
  pending triggers in each, and the process has not died of an exception.
\<close>

theorem cycle_exception_caught:
  "snd (run_dca_strategy tc) = Inr () \<and>
   (\<forall>e. snd (place_order tc) = Inl e \<longrightarrow>
      last (fst (run_dca_strategy tc)) = Log ERROR (''Error executing DCA strategy: '' @ str e)) \<and>
   (\<forall>e. get_clock tc = Inl e \<longrightarrow> snd (place_order tc) = Inl e) \<and>
   (\<forall>e c. get_clock tc = Inr c \<and> is_open c \<and> get_account tc = Inl e \<longrightarrow>
      snd (place_order tc) = Inl e) \<and>
   snd (schedule_dca tc0 polls) = None \<and>
   checks_of_pending (fst (schedule_dca tc0 polls)) = length polls \<and>
   (\<forall>e. snd (main_py environ tc0 polls) \<noteq> Raised e)"
proof -
  have 1: "snd (run_dca_strategy tc) = Inr ()"
    by (rule run_dca_strategy_returns)
  have 2: "\<forall>e. snd (place_order tc) = Inl e \<longrightarrow>
      last (fst (run_dca_strategy tc)) = Log ERROR (''Error executing DCA strategy: '' @ str e)"
    by (simp add: run_dca_strategy_trace)
  have 3: "\<forall>e. get_clock tc = Inl e \<longrightarrow> snd (place_order tc) = Inl e"
    by (simp add: place_order_clock_raises)
  have 4: "\<forall>e c. get_clock tc = Inr c \<and> is_open c \<and> get_account tc = Inl e \<longrightarrow>
      snd (place_order tc) = Inl e"
    by (simp add: place_order_account_raises)
  have 5: "snd (schedule_dca tc0 polls) = None"
    by (simp add: schedule_dca_trace)
  have 6: "checks_of_pending (fst (schedule_dca tc0 polls)) = length polls"
    by (simp add: schedule_dca_trace checks_of_pending_append cycle_observations
        loop_observations checks_of_pending_Cons)
  have 7: "\<forall>e. snd (main_py environ tc0 polls) \<noteq> Raised e"
    by (simp add: main_py_not_raised)
  from 1 2 3 4 5 6 7 show ?thesis by blast
qed

theorem cycle_exception_caught_witness:
  "get_clock failing_clock_client = Inl (Exception ''clock unavailable'') \<and>
   snd (place_order failing_clock_client) = Inl (Exception ''clock unavailable'') \<and>
   last (fst (run_dca_strategy failing_clock_client)) =
     Log ERROR ''Error executing DCA strategy: clock unavailable'' \<and>
   snd (run_dca_strategy failing_clock_client) = Inr () \<and>
   get_clock failing_account_client = Inr (example_clock True) \<and>
   is_open (example_clock True) \<and>
   get_account failing_account_client = Inl (Exception ''account unavailable'') \<and>
   snd (place_order failing_account_client) = Inl (Exception ''account unavailable'') \<and>
   last (fst (run_dca_strategy failing_account_client)) =
     Log ERROR ''Error executing DCA strategy: account unavailable'' \<and>
   snd (run_dca_strategy failing_account_client) = Inr () \<and>
   snd (schedule_dca failing_clock_client
          [\<lparr>due = True, client = failing_account_client\<rparr>,
           \<lparr>due = True, client = example_client True (Finite 500)\<rparr>]) = None \<and>
   checks_of_pending (fst (schedule_dca failing_clock_client
          [\<lparr>due = True, client = failing_account_client\<rparr>,
           \<lparr>due = True, client = example_client True (Finite 500)\<rparr>])) = 2"
proof -
  let ?polls = "[\<lparr>due = True, client = failing_account_client\<rparr>,
                 \<lparr>due = True, client = example_client True (Finite 500)\<rparr>]"
  note a = cycle_exception_caught [of failing_clock_client failing_clock_client ?polls Map.empty]
  note b = cycle_exception_caught [of failing_account_client failing_clock_client ?polls Map.empty]
  have h1: "get_clock failing_clock_client = Inl (Exception ''clock unavailable'')"
    by (simp add: failing_defs)
  have h2: "get_clock failing_account_client = Inr (example_clock True)"
    by (simp add: failing_defs)
  have h3: "is_open (example_clock True)"
    by (simp add: example_defs)
  have h4: "get_account failing_account_client = Inl (Exception ''account unavailable'')"
    by (simp add: failing_defs)
  have a0: "snd (run_dca_strategy failing_clock_client) = Inr ()"
    by (rule a [THEN conjunct1])
  have a1: "snd (place_order failing_clock_client) = Inl (Exception ''clock unavailable'')"
    using a [THEN conjunct2, THEN conjunct2, THEN conjunct1] h1 by simp
  have a2: "last (fst (run_dca_strategy failing_clock_client)) =
     Log ERROR ''Error executing DCA strategy: clock unavailable''"
    using a [THEN conjunct2, THEN conjunct1] a1 by simp
  have b0: "snd (run_dca_strategy failing_account_client) = Inr ()"
    by (rule b [THEN conjunct1])
  have b1: "snd (place_order failing_account_client) = Inl (Exception ''account unavailable'')"
    using b [THEN conjunct2, THEN conjunct2, THEN conjunct2, THEN conjunct1] h2 h3 h4 by simp
  have b2: "last (fst (run_dca_strategy failing_account_client)) =
     Log ERROR ''Error executing DCA strategy: account unavailable''"
    using b [THEN conjunct2, THEN conjunct1] b1 by simp
  have l: "snd (schedule_dca failing_clock_client ?polls) = None"
    by (rule a [THEN conjunct2, THEN conjunct2, THEN conjunct2, THEN conjunct2, THEN conjunct1])
  have c: "checks_of_pending (fst (schedule_dca failing_clock_client ?polls)) = 2"
    using a [THEN conjunct2, THEN conjunct2, THEN conjunct2, THEN conjunct2, THEN conjunct2,
        THEN conjunct1]
    by simp
  show ?thesis
    by (intro conjI h1 a1 a2 a0 h2 h3 h4 b1 b2 b0 l c)
qed

subsection \<open>Configuration at start\<close>

lemma lower_char_t: "lower_char c = CHR ''t'' \<longleftrightarrow> c = CHR ''t'' \<or> c = CHR ''T''"
  by (auto simp: lower_char_def)
lemma same_letter_t: "same_letter c (CHR ''t'') \<longleftrightarrow> c = CHR ''t'' \<or> c = CHR ''T''"
  by (auto simp: same_letter_def)
lemma lower_char_r: "lower_char c = CHR ''r'' \<longleftrightarrow> c = CHR ''r'' \<or> c = CHR ''R''"
  by (auto simp: lower_char_def)
lemma same_letter_r: "same_letter c (CHR ''r'') \<longleftrightarrow> c = CHR ''r'' \<or> c = CHR ''R''"
  by (auto simp: same_letter_def)
lemma lower_char_u: "lower_char c = CHR ''u'' \<longleftrightarrow> c = CHR ''u'' \<or> c = CHR ''U''"
  by (auto simp: lower_char_def)
lemma same_letter_u: "same_letter c (CHR ''u'') \<longleftrightarrow> c = CHR ''u'' \<or> c = CHR ''U''"
  by (auto simp: same_letter_def)
lemma lower_char_e: "lower_char c = CHR ''e'' \<longleftrightarrow> c = CHR ''e'' \<or> c = CHR ''E''"
  by (auto simp: lower_char_def)
lemma same_letter_e: "same_letter c (CHR ''e'') \<longleftrightarrow> c = CHR ''e'' \<or> c = CHR ''E''"
  by (auto simp: same_letter_def)

lemma lower_true_literal: "lower ''true'' = ''true''"
  by (simp add: lower_def lower_char_def)

lemma lower_eq_true_chars:
  "lower v = ''true'' \<longleftrightarrow>
     (\<exists>a b c d. v = [a, b, c, d] \<and> lower_char a = CHR ''t'' \<and> lower_char b = CHR ''r'' \<and>
        lower_char c = CHR ''u'' \<and> lower_char d = CHR ''e'')"
  unfolding lower_def by (auto simp: map_eq_Cons_conv)

lemma match_true_chars:
  "case_insensitive_match v ''true'' \<longleftrightarrow>
     (\<exists>a b c d. v = [a, b, c, d] \<and> same_letter a (CHR ''t'') \<and> same_letter b (CHR ''r'') \<and>
        same_letter c (CHR ''u'') \<and> same_letter d (CHR ''e''))"
  unfolding case_insensitive_match_def by (auto simp: list_all2_Cons2)

lemma lower_eq_true: "lower v = ''true'' \<longleftrightarrow> case_insensitive_match v ''true''"
  unfolding lower_eq_true_chars match_true_chars
  by (simp only: lower_char_t lower_char_r lower_char_u lower_char_e
      same_letter_t same_letter_r same_letter_u same_letter_e)

lemma is_paper_examples:
  "is_paper Map.empty"
  "is_paper [''IS_PAPER'' \<mapsto> ''true'']"
  "is_paper [''IS_PAPER'' \<mapsto> ''TRUE'']"
  "is_paper [''IS_PAPER'' \<mapsto> ''True'']"
  "\<not> is_paper [''IS_PAPER'' \<mapsto> ''false'']"
  "\<not> is_paper [''IS_PAPER'' \<mapsto> ''yes'']"
  "\<not> is_paper [''IS_PAPER'' \<mapsto> ''1'']"
  "\<not> is_paper [''IS_PAPER'' \<mapsto> '' true'']"
  "\<not> is_paper [''IS_PAPER'' \<mapsto> []]"
  by (simp_all add: is_paper_def getenv_def lower_def lower_char_def)

text \<open>
  C7. The trading mode is paper exactly when \<open>IS_PAPER\<close> is unset or is set to a
  case-insensitive match of \<open>true\<close>; any other value gives live mode.
\<close>

theorem paper_mode_iff:
  "is_paper environ \<longleftrightarrow>
     (environ ''IS_PAPER'' = None \<or>
      (\<exists>v. environ ''IS_PAPER'' = Some v \<and> case_insensitive_match v ''true''))"
proof (cases "environ ''IS_PAPER''")
  case None
  then show ?thesis by (simp add: is_paper_def getenv_def lower_true_literal)
next
  case (Some v)
  then show ?thesis by (simp add: is_paper_def getenv_def lower_eq_true)
qed

text \<open>
  C6. When \<open>ALPACA_API_KEY\<close> or \<open>ALPACA_API_SECRET\<close> is missing from the environment,
  the process logs the error and exits with status 1; no client is constructed.
\<close>

theorem missing_credentials_exit:
  assumes "environ ''ALPACA_API_KEY'' = None \<or> environ ''ALPACA_API_SECRET'' = None"
  shows "main_py environ tc0 polls =
           ([Log ERROR ''API keys not found. Please check your .env file.''], Exited 1) \<and>
         (\<forall>k s p. Construct_TradingClient k s p \<notin> set (fst (main_py environ tc0 polls)))"
  using assms by (auto simp: main_py_def module_init_def Let_def)

theorem missing_credentials_exit_witness:
  "([''ALPACA_API_KEY'' \<mapsto> ''key''] ''ALPACA_API_KEY'' = None \<or>
    [''ALPACA_API_KEY'' \<mapsto> ''key''] ''ALPACA_API_SECRET'' = None) \<and>
   main_py [''ALPACA_API_KEY'' \<mapsto> ''key''] (example_client True (Finite 500)) [] =
     ([Log ERROR ''API keys not found. Please check your .env file.''], Exited 1) \<and>
   (\<forall>k s p. Construct_TradingClient k s p \<notin>
      set (fst (main_py [''ALPACA_API_KEY'' \<mapsto> ''key''] (example_client True (Finite 500)) [])))"
proof -
  have h: "[''ALPACA_API_KEY'' \<mapsto> ''key''] ''ALPACA_API_KEY'' = None \<or>
    [''ALPACA_API_KEY'' \<mapsto> ''key''] ''ALPACA_API_SECRET'' = None"
    by simp
  show ?thesis
    using missing_credentials_exit [OF h, of "example_client True (Finite 500)" "[]"] h
    by blast
qed

subsection \<open>Scheduling\<close>

text \<open>
  C8. \<open>schedule_dca\<close> registers one daily job, at 09:35; runs the strategy once at
  start, whatever the turns of the loop bring; and then, turn after turn without end,
  checks the pending triggers, runs the strategy exactly in the turns where the trigger
  is due, and sleeps 60 seconds.
\<close>

theorem scheduler_runs_once_then_on_trigger:
  "schedule_dca tc0 polls =
     ([Schedule_every_day_at ''09:35'',
       Log INFO ''DCA strategy scheduled to run daily at 9:35 AM''] @
      fst (run_dca_strategy tc0) @
      concat (map (\<lambda>p. Call_run_pending #
                 (if due p then fst (run_dca_strategy (client p)) else []) @ [Sleep 60]) polls),
      None) \<and>
   registrations (fst (schedule_dca tc0 polls)) = [''09:35''] \<and>
   strategy_runs (fst (schedule_dca tc0 polls)) = 1 + length (filter due polls) \<and>
   checks_of_pending (fst (schedule_dca tc0 polls)) = length polls \<and>
   sleeps (fst (schedule_dca tc0 polls)) = replicate (length polls) 60"
  by (simp add: schedule_dca_trace registrations_append sleeps_append
      checks_of_pending_append strategy_runs_append cycle_observations loop_observations
      checks_of_pending_Cons strategy_runs_Cons)

theorem scheduler_runs_once_then_on_trigger_witness:
  "registrations (fst (schedule_dca (example_client False (Finite 500))
      [\<lparr>due = False, client = example_client True (Finite 500)\<rparr>,
       \<lparr>due = True, client = example_client True (Finite 500)\<rparr>])) = [''09:35''] \<and>
   strategy_runs (fst (schedule_dca (example_client False (Finite 500))
      [\<lparr>due = False, client = example_client True (Finite 500)\<rparr>,
       \<lparr>due = True, client = example_client True (Finite 500)\<rparr>])) = 2 \<and>
   checks_of_pending (fst (schedule_dca (example_client False (Finite 500))
      [\<lparr>due = False, client = example_client True (Finite 500)\<rparr>,
       \<lparr>due = True, client = example_client True (Finite 500)\<rparr>])) = 2 \<and>
   sleeps (fst (schedule_dca (example_client False (Finite 500))
      [\<lparr>due = False, client = example_client True (Finite 500)\<rparr>,
       \<lparr>due = True, client = example_client True (Finite 500)\<rparr>])) = [60, 60] \<and>
   snd (schedule_dca (example_client False (Finite 500))
      [\<lparr>due = False, client = example_client True (Finite 500)\<rparr>,
       \<lparr>due = True, client = example_client True (Finite 500)\<rparr>]) = None"
proof -
  let ?polls = "[\<lparr>due = False, client = example_client True (Finite 500)\<rparr>,
       \<lparr>due = True, client = example_client True (Finite 500)\<rparr>]"
  note t = scheduler_runs_once_then_on_trigger [of "example_client False (Finite 500)" ?polls]
  have 1: "registrations (fst (schedule_dca (example_client False (Finite 500)) ?polls)) =
             [''09:35'']"
    by (rule t [THEN conjunct2, THEN conjunct1])
  have 2: "strategy_runs (fst (schedule_dca (example_client False (Finite 500)) ?polls)) = 2"
    using t [THEN conjunct2, THEN conjunct2, THEN conjunct1] by simp
  have 3: "checks_of_pending (fst (schedule_dca (example_client False (Finite 500)) ?polls)) = 2"
    using t [THEN conjunct2, THEN conjunct2, THEN conjunct2, THEN conjunct1] by simp
  have 4: "sleeps (fst (schedule_dca (example_client False (Finite 500)) ?polls)) = [60, 60]"
    using t [THEN conjunct2, THEN conjunct2, THEN conjunct2, THEN conjunct2]
    by (simp add: numeral_2_eq_2)
  have 5: "snd (schedule_dca (example_client False (Finite 500)) ?polls) = None"
    using t [THEN conjunct1] by simp
  show ?thesis
    by (intro conjI 1 2 3 4 5)
qed

end
